theory Spec2Isabelle
  imports Complex_Main
begin

section \<open>Multi-agent PPO policy: postprocessing, surrogate loss, KL controller\<close>

text \<open>
  A shallow embedding of \<^verbatim>\<open>multi_trainer.py\<close>. Python floats and tensor entries are
  modelled as \<^typ>\<open>real\<close>: rounding, infinities and NaN are outside the model. Every
  raise of the source is a value \<open>Inl e\<close> of the result type.
\<close>

subsection \<open>Adaptive KL controller (class KLCoeffMixin)\<close>

record kl_state =
  kl_coeff :: real
  kl_target :: real

text \<open>\<^verbatim>\<open>KLCoeffMixin.__init__\<close>: both fields are read from the configuration.\<close>

definition kl_init :: "real \<Rightarrow> real \<Rightarrow> kl_state" where
  "kl_init cfg_kl_coeff cfg_kl_target = \<lparr>kl_coeff = cfg_kl_coeff, kl_target = cfg_kl_target\<rparr>"

text \<open>
  \<^verbatim>\<open>KLCoeffMixin.update_kl\<close>: the object is mutated and the coefficient returned, so
  the model returns the new state together with the returned value.
\<close>

definition update_kl :: "kl_state \<Rightarrow> real \<Rightarrow> kl_state \<times> real" where
  "update_kl self sampled_kl =
     (let self' =
        (if sampled_kl > 2.0 * kl_target self then self\<lparr>kl_coeff := kl_coeff self * 1.5\<rparr>
         else if sampled_kl < 0.5 * kl_target self then self\<lparr>kl_coeff := kl_coeff self * 0.5\<rparr>
         else self)
      in (self', kl_coeff self'))"


subsection \<open>Clipped surrogate, per timestep\<close>

text \<open>\<^verbatim>\<open>torch.clamp(x, lo, hi)\<close> is \<open>min (max x lo) hi\<close>.\<close>

definition clamp :: "real \<Rightarrow> real \<Rightarrow> real \<Rightarrow> real" where
  "clamp x lo hi = min (max x lo) hi"

text \<open>
  One entry of \<^verbatim>\<open>surrogate_loss\<close> (lines 189-193): \<^verbatim>\<open>torch.min\<close> of the
  advantage times the ratio and the advantage times the clamped ratio.
\<close>

definition surrogate_loss :: "real \<Rightarrow> real \<Rightarrow> real \<Rightarrow> real" where
  "surrogate_loss clip_param advantage logp_ratio =
     min (advantage * logp_ratio)
         (advantage * clamp logp_ratio (1 - clip_param) (1 + clip_param))"

subsection \<open>Errors and arrays\<close>

text \<open>
  The exceptions the source can raise. \<open>Unmodelled\<close> marks behaviour of the numeric
  library on values that the embedding does not represent (arrays of rank above 2, opaque
  columns used as numbers); no theorem below relies on it as a raise of the source.
\<close>

datatype error = KeyError | IndexError | TypeError | AttributeError | ValueError
  | ZeroDivisionError | RuntimeError | Unmodelled

text \<open>
  One entry of the \<^verbatim>\<open>infos\<close> side channel is a dict; the entry under
  \<^verbatim>\<open>"rewards"\<close> is itself a dict from agent key to reward. Agent keys are kept by
  their \<^verbatim>\<open>str()\<close> image, which is what line 68 uses.
\<close>

datatype info_value = RewardDict "(string \<times> real) list" | OtherInfo

type_synonym info = "(string \<times> info_value) list"

text \<open>
  A numpy array held in a column: a 1-D or 2-D float32 array (the 2-D one with its width, so
  that an array without rows still has a shape; every row has that width), a 1-D bool
  array, a 1-D array of info dicts (dtype object), or data the postprocessor never looks
  into.
\<close>

datatype ndarray =
    Float1 "real list"
  | Float2 nat "real list list"
  | Bool1 "bool list"
  | Object1 "info list"
  | Opaque nat

datatype column = OBS | NEXT_OBS | ACTIONS | REWARDS | DONES | INFOS | VF_PREDS
  | ACTION_LOGP | ACTION_DIST_INPUTS | ADVANTAGES | VALUE_TARGETS | STATE_OUT nat

type_synonym sample_batch = "column \<rightharpoonup> ndarray"

text \<open>\<^verbatim>\<open>sample_batch[k]\<close>: a missing column raises.\<close>

definition getitem :: "sample_batch \<Rightarrow> column \<Rightarrow> error + ndarray" where
  "getitem sb k = (case sb k of None \<Rightarrow> Inl KeyError | Some v \<Rightarrow> Inr v)"

text \<open>\<^verbatim>\<open>a.dtype == "float32"\<close>.\<close>

fun is_float32 :: "ndarray \<Rightarrow> bool" where
  "is_float32 (Float1 xs) = True"
| "is_float32 (Float2 w rows) = True"
| "is_float32 a = False"

text \<open>\<^verbatim>\<open>a[:, i:i+1]\<close>: a slice never raises on a 2-D array; it is clipped to the width.\<close>

fun slice_col :: "ndarray \<Rightarrow> nat \<Rightarrow> error + ndarray" where
  "slice_col (Float2 w rows) i = Inr (Float2 (min (w - i) 1) (map (\<lambda>r. take 1 (drop i r)) rows))"
| "slice_col a i = Inl IndexError"

text \<open>\<^verbatim>\<open>a[:, i]\<close>: an index beyond the width raises.\<close>

fun index_col :: "ndarray \<Rightarrow> nat \<Rightarrow> error + ndarray" where
  "index_col (Float2 w rows) i =
     (if i < w then Inr (Float1 (map (\<lambda>r. r ! i) rows)) else Inl IndexError)"
| "index_col a i = Inl IndexError"

text \<open>\<^verbatim>\<open>if a[-1]:\<close> on a 1-D array.\<close>

fun last_flag :: "ndarray \<Rightarrow> error + bool" where
  "last_flag (Bool1 ds) = (if ds = [] then Inl IndexError else Inr (last ds))"
| "last_flag (Float1 xs) = (if xs = [] then Inl IndexError else Inr (last xs \<noteq> 0))"
| "last_flag a = Inl Unmodelled"

text \<open>
  \<^verbatim>\<open>np.stack(arrays, axis=-1)\<close> on 1-D arrays of one length \<open>T\<close>: a \<open>T \<times> n\<close>
  array whose slot \<open>i\<close> of row \<open>t\<close> is entry \<open>t\<close> of array \<open>i\<close>.
\<close>

fun float1_data :: "ndarray \<Rightarrow> real list option" where
  "float1_data (Float1 xs) = Some xs"
| "float1_data a = None"

definition np_stack :: "ndarray list \<Rightarrow> error + ndarray" where
  "np_stack arrays =
     (case arrays of
        [] \<Rightarrow> Inl ValueError
      | a # _ \<Rightarrow>
          if list_all (\<lambda>b. float1_data b \<noteq> None) arrays then
            (let cols = map (\<lambda>b. the (float1_data b)) arrays; T = length (hd cols)
             in if list_all (\<lambda>c. length c = T) cols
                then Inr (Float2 (length cols) (map (\<lambda>t. map (\<lambda>c. c ! t) cols) [0..<T]))
                else Inl ValueError)
          else Inl Unmodelled)"

subsection \<open>Deserialising the decomposed rewards (lines 57-71)\<close>

text \<open>
  \<^verbatim>\<open>SampleBatch({k: [v] for k, v in s.items()})\<close> and
  \<^verbatim>\<open>SampleBatch.concat_samples\<close> belong to the sampling library. They are modelled by
  what the library does: a batch without columns is rejected, the result has the columns
  of the first batch, and a later batch lacking one of them raises.
\<close>

definition single_sample :: "('k \<times> 'v) list \<Rightarrow> error + ('k \<times> 'v list) list" where
  "single_sample s = (if s = [] then Inl ValueError else Inr (map (\<lambda>(k, v). (k, [v])) s))"

fun single_samples :: "('k \<times> 'v) list list \<Rightarrow> error + ('k \<times> 'v list) list list" where
  "single_samples [] = Inr []"
| "single_samples (s # ss) =
     (case single_sample s of
        Inl e \<Rightarrow> Inl e
      | Inr b \<Rightarrow> (case single_samples ss of Inl e \<Rightarrow> Inl e | Inr bs \<Rightarrow> Inr (b # bs)))"

fun concat_column :: "'k \<Rightarrow> ('k \<times> 'v list) list list \<Rightarrow> error + 'v list" where
  "concat_column k [] = Inr []"
| "concat_column k (b # bs) =
     (case map_of b k of
        None \<Rightarrow> Inl KeyError
      | Some vs \<Rightarrow> (case concat_column k bs of Inl e \<Rightarrow> Inl e | Inr r \<Rightarrow> Inr (vs @ r)))"

fun concat_keys :: "'k list \<Rightarrow> ('k \<times> 'v list) list list \<Rightarrow> error + ('k \<times> 'v list) list" where
  "concat_keys [] bs = Inr []"
| "concat_keys (k # ks) bs =
     (case concat_column k bs of
        Inl e \<Rightarrow> Inl e
      | Inr c \<Rightarrow> (case concat_keys ks bs of Inl e \<Rightarrow> Inl e | Inr r \<Rightarrow> Inr ((k, c) # r)))"

definition concat_samples :: "('k \<times> 'v list) list list \<Rightarrow> error + ('k \<times> 'v list) list" where
  "concat_samples bs = (case bs of [] \<Rightarrow> Inl IndexError | b # _ \<Rightarrow> concat_keys (map fst b) bs)"

text \<open>\<^verbatim>\<open>s.items()\<close> for each entry of the \<^verbatim>\<open>"rewards"\<close> column.\<close>

fun reward_items :: "info_value list \<Rightarrow> error + (string \<times> real) list list" where
  "reward_items [] = Inr []"
| "reward_items (RewardDict d # vs) =
     (case reward_items vs of Inl e \<Rightarrow> Inl e | Inr ds \<Rightarrow> Inr (d # ds))"
| "reward_items (OtherInfo # vs) = Inl AttributeError"

text \<open>
  Lines 57-71. The result \<open>None\<close> is the source's \<^verbatim>\<open>samplebatch_infos_rewards = None\<close>,
  kept when the infos column has dtype float32.
\<close>

definition infos_rewards :: "ndarray \<Rightarrow> error + (string \<times> real list) list option" where
  "infos_rewards infos =
     (if is_float32 infos then Inr None
      else case infos of
        Object1 dicts \<Rightarrow>
          (case single_samples dicts of
             Inl e \<Rightarrow> Inl e
           | Inr bs \<Rightarrow>
          (case concat_samples bs of
             Inl e \<Rightarrow> Inl e
           | Inr samplebatch_infos \<Rightarrow>
          (case map_of samplebatch_infos ''rewards'' of
             None \<Rightarrow> Inl KeyError
           | Some rs \<Rightarrow>
          (case reward_items rs of
             Inl e \<Rightarrow> Inl e
           | Inr ds \<Rightarrow>
          (case single_samples ds of
             Inl e \<Rightarrow> Inl e
           | Inr rbs \<Rightarrow>
          (case concat_samples rbs of
             Inl e \<Rightarrow> Inl e
           | Inr samplebatch_infos_rewards \<Rightarrow> Inr (Some samplebatch_infos_rewards)))))))
      | Bool1 bs \<Rightarrow> Inl (if bs = [] then IndexError else AttributeError)
      | a \<Rightarrow> Inl Unmodelled)"

subsection \<open>Policy configuration and external collaborators\<close>

text \<open>
  The entries of \<^verbatim>\<open>policy.config\<close> that the file reads, with the policy's
  \<^verbatim>\<open>entropy_coeff\<close> and \<^verbatim>\<open>num_state_tensors()\<close>. \<open>use_critic\<close> is read with
  \<^verbatim>\<open>config.get("use_critic", True)\<close>, so it may be absent. The policy's
  \<^verbatim>\<open>kl_coeff\<close> is the field of the controller state above.
\<close>

record config =
  use_gae :: bool
  use_critic :: "bool option"
  gamma :: real
  lambda :: real
  clip_param :: real
  vf_clip_param :: real
  vf_loss_coeff :: real
  entropy_coeff :: real
  num_state_tensors :: nat

text \<open>
  The collaborators the postprocessor calls: the library's \<^verbatim>\<open>compute_advantages\<close>
  and the model. \<open>model_value_function sb\<close> is what \<^verbatim>\<open>model.value_function()\<close> holds
  after a forward pass on the input dict of the last timestep of \<open>sb\<close>
  (\<^verbatim>\<open>model.get_input_dict(sample_batch, index="last")\<close>): one row per batch entry, one
  slot per agent.
\<close>

record externals =
  compute_advantages ::
    "sample_batch \<Rightarrow> real \<Rightarrow> real \<Rightarrow> real \<Rightarrow> bool \<Rightarrow> bool \<Rightarrow> error + sample_batch"
  model_value_function :: "sample_batch \<Rightarrow> real list list"

text \<open>
  What a run does besides returning: forward passes of the model, and calls of
  \<^verbatim>\<open>compute_advantages\<close> with the agent index and the bootstrap value handed over.
\<close>

datatype event = ForwardPass | AdvantagesCall nat real

subsection \<open>The value estimator installed by ValueNetworkMixin (lines 328-369)\<close>

text \<open>
  With \<^verbatim>\<open>use_gae\<close> the installed \<^verbatim>\<open>value\<close> runs a forward pass and returns
  \<^verbatim>\<open>model.value_function()[0]\<close>, a tensor; without it \<^verbatim>\<open>value\<close> returns the float
  \<^verbatim>\<open>0.0\<close> and runs nothing. Both variants under \<^verbatim>\<open>use_gae\<close> (with and without the
  trajectory view API) make one forward pass and take row 0.
\<close>

datatype pyvalue = PyFloat real | Tensor1 "real list"

definition policy_value :: "config \<Rightarrow> externals \<Rightarrow> sample_batch \<Rightarrow> (error + pyvalue) \<times> event list" where
  "policy_value cfg ext sample_batch =
     (if use_gae cfg then
        (case model_value_function ext sample_batch of
           [] \<Rightarrow> (Inl IndexError, [ForwardPass])
         | row # _ \<Rightarrow> (Inr (Tensor1 row), [ForwardPass]))
      else (Inr (PyFloat 0.0), []))"

text \<open>\<^verbatim>\<open>v[int(i)]\<close>: a Python float has no subscript.\<close>

fun subscript :: "pyvalue \<Rightarrow> nat \<Rightarrow> error + real" where
  "subscript (PyFloat x) i = Inl TypeError"
| "subscript (Tensor1 xs) i = (if i < length xs then Inr (xs ! i) else Inl IndexError)"

text \<open>\<^verbatim>\<open>int(i)\<close> on a string of decimal digits.\<close>

definition py_int :: "string \<Rightarrow> nat" where
  "py_int s = foldl (\<lambda>n c. 10 * n + (of_char c - 48)) 0 s"

subsection \<open>The trajectory postprocessor (compute_gae_for_sample_batch)\<close>

text \<open>
  Lines 75-79: the columns are read only so that the sampler keeps providing them; a
  missing one raises.
\<close>

fun touch_columns :: "sample_batch \<Rightarrow> column list \<Rightarrow> error + unit" where
  "touch_columns sb [] = Inr ()"
| "touch_columns sb (k # ks) =
     (case getitem sb k of Inl e \<Rightarrow> Inl e | Inr _ \<Rightarrow> touch_columns sb ks)"

text \<open>Lines 86-90: the reward column of agent \<open>i\<close>.\<close>

definition agent_rewards ::
  "(string \<times> real list) list option \<Rightarrow> sample_batch \<Rightarrow> string \<Rightarrow> error + ndarray" where
  "agent_rewards samplebatch_infos_rewards sample_batch i =
     (case samplebatch_infos_rewards of
        Some r \<Rightarrow> (case map_of r i of None \<Rightarrow> Inl KeyError | Some c \<Rightarrow> Inr (Float1 c))
      | None \<Rightarrow> getitem sample_batch INFOS)"

text \<open>Lines 98-109: the bootstrap value \<^verbatim>\<open>last_r\<close> of agent \<open>i\<close>.\<close>

definition bootstrap_value ::
  "config \<Rightarrow> externals \<Rightarrow> sample_batch \<Rightarrow> string \<Rightarrow> (error + real) \<times> event list" where
  "bootstrap_value cfg ext sample_batch i =
     (case getitem sample_batch DONES of
        Inl e \<Rightarrow> (Inl e, [])
      | Inr dones \<Rightarrow>
     (case last_flag dones of
        Inl e \<Rightarrow> (Inl e, [])
      | Inr done \<Rightarrow>
          if done then (Inr 0.0, [])
          else
            (case policy_value cfg ext sample_batch of
               (Inl e, evs) \<Rightarrow> (Inl e, evs)
             | (Inr v, evs) \<Rightarrow>
                 (case subscript v (py_int i) of
                    Inl e \<Rightarrow> (Inl e, evs)
                  | Inr last_r \<Rightarrow> (Inr last_r, evs)))))"

text \<open>One pass of the loop of lines 83-122, for the agent key \<open>i\<close>.\<close>

definition agent_step ::
  "config \<Rightarrow> externals \<Rightarrow> (string \<times> real list) list option \<Rightarrow> sample_batch \<Rightarrow> string
     \<Rightarrow> (error + sample_batch) \<times> event list" where
  "agent_step cfg ext samplebatch_infos_rewards sample_batch i =
     (case agent_rewards samplebatch_infos_rewards sample_batch i of
        Inl e \<Rightarrow> (Inl e, [])
      | Inr rewards \<Rightarrow>
     (case getitem sample_batch ACTIONS of
        Inl e \<Rightarrow> (Inl e, [])
      | Inr acts \<Rightarrow>
     (case slice_col acts (py_int i) of
        Inl e \<Rightarrow> (Inl e, [])
      | Inr actions \<Rightarrow>
     (case getitem sample_batch VF_PREDS of
        Inl e \<Rightarrow> (Inl e, [])
      | Inr vfs \<Rightarrow>
     (case index_col vfs (py_int i) of
        Inl e \<Rightarrow> (Inl e, [])
      | Inr vf_preds \<Rightarrow>
     (let sample_batch_agent =
            sample_batch(REWARDS \<mapsto> rewards, ACTIONS \<mapsto> actions, VF_PREDS \<mapsto> vf_preds)
      in case bootstrap_value cfg ext sample_batch i of
           (Inl e, evs) \<Rightarrow> (Inl e, evs)
         | (Inr last_r, evs) \<Rightarrow>
             (compute_advantages ext sample_batch_agent last_r (gamma cfg) (lambda cfg)
                (use_gae cfg) (case use_critic cfg of None \<Rightarrow> True | Some b \<Rightarrow> b),
              evs @ [AdvantagesCall (py_int i) last_r])))))))"

fun agents_loop ::
  "config \<Rightarrow> externals \<Rightarrow> (string \<times> real list) list option \<Rightarrow> sample_batch \<Rightarrow> string list
     \<Rightarrow> (error + sample_batch list) \<times> event list" where
  "agents_loop cfg ext rew sample_batch [] = (Inr [], [])"
| "agents_loop cfg ext rew sample_batch (i # is) =
     (case agent_step cfg ext rew sample_batch i of
        (Inl e, evs) \<Rightarrow> (Inl e, evs)
      | (Inr b, evs) \<Rightarrow>
          (case agents_loop cfg ext rew sample_batch is of
             (Inl e, evs') \<Rightarrow> (Inl e, evs @ evs')
           | (Inr batches, evs') \<Rightarrow> (Inr (b # batches), evs @ evs')))"

text \<open>Lines 125-131: \<^verbatim>\<open>[b[k] for b in batches]\<close>, then the stacked column is stored.\<close>

fun getitems :: "sample_batch list \<Rightarrow> column \<Rightarrow> error + ndarray list" where
  "getitems [] k = Inr []"
| "getitems (b # bs) k =
     (case getitem b k of
        Inl e \<Rightarrow> Inl e
      | Inr a \<Rightarrow> (case getitems bs k of Inl e \<Rightarrow> Inl e | Inr as \<Rightarrow> Inr (a # as)))"

fun stack_columns :: "column list \<Rightarrow> sample_batch list \<Rightarrow> sample_batch \<Rightarrow> error + sample_batch" where
  "stack_columns [] batches sample_batch = Inr sample_batch"
| "stack_columns (k # ks) batches sample_batch =
     (case getitems batches k of
        Inl e \<Rightarrow> Inl e
      | Inr arrays \<Rightarrow>
          (case np_stack arrays of
             Inl e \<Rightarrow> Inl e
           | Inr a \<Rightarrow> stack_columns ks batches (sample_batch(k \<mapsto> a))))"

definition stacked_columns :: "column list" where
  "stacked_columns = [REWARDS, VF_PREDS, ADVANTAGES, VALUE_TARGETS]"

definition agent_keys :: "string list" where
  "agent_keys = [''0'', ''1'', ''2'']"

text \<open>
  The whole function: the returned batch, or the exception raised, together with the
  forward passes and advantage computations made on the way.
\<close>

definition compute_gae_for_sample_batch ::
  "config \<Rightarrow> externals \<Rightarrow> sample_batch \<Rightarrow> (error + sample_batch) \<times> event list" where
  "compute_gae_for_sample_batch cfg ext sample_batch =
     (case getitem sample_batch INFOS of
        Inl e \<Rightarrow> (Inl e, [])
      | Inr infos \<Rightarrow>
     (case infos_rewards infos of
        Inl e \<Rightarrow> (Inl e, [])
      | Inr samplebatch_infos_rewards \<Rightarrow>
     (case touch_columns sample_batch
             (map STATE_OUT [0..<num_state_tensors cfg] @ [NEXT_OBS, ACTIONS, REWARDS]) of
        Inl e \<Rightarrow> (Inl e, [])
      | Inr _ \<Rightarrow>
     (case agents_loop cfg ext samplebatch_infos_rewards sample_batch agent_keys of
        (Inl e, evs) \<Rightarrow> (Inl e, evs)
      | (Inr batches, evs) \<Rightarrow> (stack_columns stacked_columns batches sample_batch, evs)))))"

subsection \<open>A reference advantage computation and example segments\<close>

text \<open>
  \<^verbatim>\<open>compute_advantages\<close> is a parameter of the model. To run the postprocessor on
  concrete segments it is instantiated with the recurrence the design describes: with
  \<open>use_gae\<close>, \<open>delta[t] = reward[t] + gamma * V[t+1] - V[t]\<close> with \<open>V[T] = last_r\<close> and
  \<open>advantage[t] = delta[t] + gamma * lambda * advantage[t+1]\<close>; without it, the discounted
  return, minus the value prediction when \<open>use_critic\<close>.
\<close>

fun discount_cumsum :: "real list \<Rightarrow> real \<Rightarrow> real list" where
  "discount_cumsum [] g = []"
| "discount_cumsum (x # xs) g =
     (case discount_cumsum xs g of [] \<Rightarrow> [x] | y # ys \<Rightarrow> (x + g * y) # y # ys)"

definition reference_advantages ::
  "sample_batch \<Rightarrow> real \<Rightarrow> real \<Rightarrow> real \<Rightarrow> bool \<Rightarrow> bool \<Rightarrow> error + sample_batch" where
  "reference_advantages rollout last_r g l gae critic =
     (case (rollout REWARDS, rollout VF_PREDS) of
        (Some (Float1 rs), Some (Float1 vs)) \<Rightarrow>
          if length rs \<noteq> length vs then Inl ValueError
          else if gae then
            (let vpred_t = vs @ [last_r];
                 delta_t = map (\<lambda>t. rs ! t + g * vpred_t ! Suc t - vpred_t ! t) [0..<length rs];
                 adv = discount_cumsum delta_t (g * l)
             in Inr (rollout(ADVANTAGES \<mapsto> Float1 adv,
                             VALUE_TARGETS \<mapsto> Float1 (map (\<lambda>(a, v). a + v) (zip adv vs)))))
          else
            (let returns = butlast (discount_cumsum (rs @ [last_r]) g)
             in if critic
                then Inr (rollout(ADVANTAGES \<mapsto> Float1 (map (\<lambda>(r, v). r - v) (zip returns vs)),
                                  VALUE_TARGETS \<mapsto> Float1 returns))
                else Inr (rollout(ADVANTAGES \<mapsto> Float1 returns,
                                  VALUE_TARGETS \<mapsto> Float1 (map (\<lambda>r. 0) returns))))
      | (None, _) \<Rightarrow> Inl KeyError
      | (_, None) \<Rightarrow> Inl KeyError
      | _ \<Rightarrow> Inl Unmodelled)"

text \<open>A model whose value head answers \<open>[0.3, 0.6, 0.9]\<close> on every input.\<close>

definition example_externals :: externals where
  "example_externals =
     \<lparr>compute_advantages = reference_advantages,
      model_value_function = (\<lambda>sb. [[3 / 10, 6 / 10, 9 / 10]])\<rparr>"

definition example_config :: config where
  "example_config =
     \<lparr>use_gae = True, use_critic = None, gamma = 1 / 2, lambda = 1, clip_param = 1 / 5,
      vf_clip_param = 10, vf_loss_coeff = 1, entropy_coeff = 0, num_state_tensors = 0\<rparr>"

text \<open>
  Two timesteps, three agents, rewards decomposed per agent in the infos; the episode
  ends with the segment.
\<close>

definition example_segment :: sample_batch where
  "example_segment =
     [OBS \<mapsto> Opaque 0, NEXT_OBS \<mapsto> Opaque 1,
      ACTIONS \<mapsto> Float2 3 [[0, 1, 2], [2, 1, 0]],
      ACTION_LOGP \<mapsto> Float2 3 [[0, 0, 0], [0, 0, 0]],
      REWARDS \<mapsto> Float1 [3, 6],
      DONES \<mapsto> Bool1 [False, True],
      VF_PREDS \<mapsto> Float2 3 [[1, 2, 3], [4, 5, 6]],
      INFOS \<mapsto> Object1
        [[(''rewards'', RewardDict [(''0'', 1), (''1'', 1), (''2'', 1)])],
         [(''rewards'', RewardDict [(''0'', 2), (''1'', 2), (''2'', 2)])]]]"

text \<open>
  Variants of the example: the float32 placeholder in place of the infos; a segment cut
  before the episode ends; infos that name only two agents; infos without a
  \<^verbatim>\<open>"rewards"\<close> entry; action and value arrays with four slots; value predictions
  with two slots.
\<close>

definition placeholder_segment :: sample_batch where
  "placeholder_segment = example_segment(INFOS \<mapsto> Float1 [0, 0])"


definition two_agent_infos_segment :: sample_batch where
  "two_agent_infos_segment = example_segment(INFOS \<mapsto> Object1
        [[(''rewards'', RewardDict [(''0'', 1), (''1'', 1)])],
         [(''rewards'', RewardDict [(''0'', 2), (''1'', 2)])]])"

definition no_rewards_infos_segment :: sample_batch where
  "no_rewards_infos_segment = example_segment(INFOS \<mapsto> Object1
        [[(''cost'', OtherInfo)], [(''cost'', OtherInfo)]])"

definition wide_segment :: sample_batch where
  "wide_segment = example_segment
     (ACTIONS \<mapsto> Float2 4 [[0, 1, 2, 3], [2, 1, 0, 3]],
      VF_PREDS \<mapsto> Float2 4 [[1, 2, 3, 7], [4, 5, 6, 7]])"

definition narrow_segment :: sample_batch where
  "narrow_segment = example_segment(VF_PREDS \<mapsto> Float2 2 [[1, 2], [4, 5]])"


subsection \<open>The surrogate loss evaluator (ppo_surrogate_loss)\<close>

text \<open>
  Every tensor of the loss is indexed by the flattened time axis of the batch, and torch
  raises on tensors that disagree on it. The model keeps them aligned by construction: one
  record per position, holding the row of each tensor at that position, one slot per
  agent. The rows of \<^verbatim>\<open>train_batch\<close> come first; then what the collaborators return
  for the position: \<^verbatim>\<open>curr_action_dist.logp(train_batch[ACTIONS])\<close>,
  \<^verbatim>\<open>curr_action_dist.entropy()\<close>, \<^verbatim>\<open>prev_action_dist.kl(curr_action_dist)\<close> and
  \<^verbatim>\<open>model.value_function()\<close>.
\<close>

record position =
  vf_preds :: "real list"
  action_logp :: "real list"
  advantages :: "real list"
  value_targets :: "real list"
  curr_logp :: "real list"
  curr_entropy :: "real list"
  action_kl :: "real list"
  value_fn_out :: "real list"

text \<open>
  The batch with the forward outputs: the positions (\<^verbatim>\<open>logits.shape[0]\<close> of them),
  \<^verbatim>\<open>train_batch["seq_lens"]\<close>, the recurrent state returned by the forward pass (only
  whether it is empty matters) and \<^verbatim>\<open>model.is_time_major()\<close>.
\<close>

record loss_input =
  positions :: "position list"
  seq_lens :: "nat list"
  state :: "real list list"
  is_time_major :: bool

text \<open>
  \<^verbatim>\<open>sequence_mask\<close> of the tensor utilities: entry \<open>(b, t)\<close> is true iff \<open>t\<close> is below
  the length of sequence \<open>b\<close>; the mask has one row per sequence, or, time-major, one row
  per time.
\<close>

definition sequence_mask :: "nat list \<Rightarrow> nat \<Rightarrow> bool \<Rightarrow> bool list list" where
  "sequence_mask lengths maxlen time_major =
     (if time_major then map (\<lambda>t. map (\<lambda>l. t < l) lengths) [0..<maxlen]
      else map (\<lambda>l. map (\<lambda>t. t < l) [0..<maxlen]) lengths)"

text \<open>
  Lines 153-170: the mask, flattened, when the forward pass returned a state; \<open>None\<close>
  is the source's \<^verbatim>\<open>mask = None\<close>. The integer division raises on a batch without
  sequences.
\<close>

definition loss_mask :: "loss_input \<Rightarrow> error + bool list option" where
  "loss_mask inp =
     (if state inp \<noteq> [] then
        (let B = length (seq_lens inp)
         in if B = 0 then Inl ZeroDivisionError
            else (let max_seq_len = length (positions inp) div B
                  in Inr (Some (concat (sequence_mask (seq_lens inp) max_seq_len
                                          (is_time_major inp))))))
      else Inr None)"

text \<open>
  \<^verbatim>\<open>reduce_mean_valid\<close>: with a mask, \<^verbatim>\<open>torch.sum(t[mask]) / num_valid\<close>, where
  indexing by a mask of another length raises; without, \<^verbatim>\<open>torch.mean\<close>. A division by
  zero gives NaN in torch and 0 here; no theorem below rests on that value.
\<close>

definition reduce_mean_valid :: "bool list option \<Rightarrow> real list \<Rightarrow> error + real" where
  "reduce_mean_valid vmask t =
     (case vmask of
        None \<Rightarrow> Inr (sum_list t / real (length t))
      | Some m \<Rightarrow>
          if length m = length t
          then Inr (sum_list (map snd (filter fst (zip m t))) / real (length (filter id m)))
          else Inl IndexError)"

text \<open>\<^verbatim>\<open>x[:, i]\<close> and \<^verbatim>\<open>x[..., i]\<close> on a tensor with one row per position.\<close>

definition tensor_col :: "(position \<Rightarrow> real list) \<Rightarrow> nat \<Rightarrow> position list \<Rightarrow> error + real list" where
  "tensor_col f i ps =
     (if list_all (\<lambda>p. i < length (f p)) ps then Inr (map (\<lambda>p. f p ! i) ps)
      else Inl IndexError)"

text \<open>
  The entry of \<^verbatim>\<open>loss_data\<close> for one agent. \<^verbatim>\<open>mean_vf_loss\<close> is a tensor with
  \<open>use_gae\<close> and the Python float \<^verbatim>\<open>0.0\<close> without.
\<close>

datatype scalar = Tensor0 real | Float0 real

record loss_data =
  total_loss :: real
  mean_policy_loss :: real
  mean_vf_loss :: scalar
  mean_entropy :: real

text \<open>The value loss of one position (lines 197-206).\<close>

definition vf_loss :: "real \<Rightarrow> real \<Rightarrow> real \<Rightarrow> real \<Rightarrow> real" where
  "vf_loss vf_clip prev_value_fn_out value_out target =
     (let vf_loss1 = (value_out - target) ^ 2;
          vf_clipped = prev_value_fn_out + clamp (value_out - prev_value_fn_out) (- vf_clip) vf_clip;
          vf_loss2 = (vf_clipped - target) ^ 2
      in max vf_loss1 vf_loss2)"

text \<open>The body of the loop of lines 181-226, for agent \<open>i\<close>.\<close>

definition agent_loss ::
  "config \<Rightarrow> kl_state \<Rightarrow> bool list option \<Rightarrow> position list \<Rightarrow> nat \<Rightarrow> error + loss_data" where
  "agent_loss cfg policy vmask ps i =
     (case tensor_col curr_logp i ps of Inl e \<Rightarrow> Inl e | Inr logp \<Rightarrow>
     (case tensor_col action_logp i ps of Inl e \<Rightarrow> Inl e | Inr old_logp \<Rightarrow>
     (let logp_ratio = map2 (\<lambda>a b. exp (a - b)) logp old_logp in
     (case tensor_col curr_entropy i ps of Inl e \<Rightarrow> Inl e | Inr entropy \<Rightarrow>
     (case reduce_mean_valid vmask entropy of Inl e \<Rightarrow> Inl e | Inr m_entropy \<Rightarrow>
     (case tensor_col advantages i ps of Inl e \<Rightarrow> Inl e | Inr adv \<Rightarrow>
     (let surrogate = map2 (surrogate_loss (clip_param cfg)) adv logp_ratio in
     (case reduce_mean_valid vmask (map uminus surrogate) of Inl e \<Rightarrow> Inl e | Inr m_policy_loss \<Rightarrow>
      if use_gae cfg then
        (case tensor_col vf_preds i ps of Inl e \<Rightarrow> Inl e | Inr prev_value_fn_out \<Rightarrow>
        (case tensor_col value_fn_out i ps of Inl e \<Rightarrow> Inl e | Inr value_out \<Rightarrow>
        (case tensor_col value_targets i ps of Inl e \<Rightarrow> Inl e | Inr targets \<Rightarrow>
        (let vf = map (\<lambda>(p, v, t). vf_loss (vf_clip_param cfg) p v t)
                    (zip prev_value_fn_out (zip value_out targets)) in
        (case reduce_mean_valid vmask vf of Inl e \<Rightarrow> Inl e | Inr m_vf_loss \<Rightarrow>
        (case tensor_col action_kl i ps of Inl e \<Rightarrow> Inl e | Inr kl \<Rightarrow>
        (case reduce_mean_valid vmask
                (map (\<lambda>(s, k, v, h). - s + kl_coeff policy * k + vf_loss_coeff cfg * v
                                        - entropy_coeff cfg * h)
                   (zip surrogate (zip kl (zip vf entropy)))) of
           Inl e \<Rightarrow> Inl e
         | Inr total_i \<Rightarrow>
             Inr \<lparr>total_loss = total_i, mean_policy_loss = m_policy_loss,
                  mean_vf_loss = Tensor0 m_vf_loss, mean_entropy = m_entropy\<rparr>)))))))
      else
        (case tensor_col action_kl i ps of Inl e \<Rightarrow> Inl e | Inr kl \<Rightarrow>
        (case reduce_mean_valid vmask
                (map (\<lambda>(s, k, h). - s + kl_coeff policy * k - entropy_coeff cfg * h)
                   (zip surrogate (zip kl entropy))) of
           Inl e \<Rightarrow> Inl e
         | Inr total_i \<Rightarrow>
             Inr \<lparr>total_loss = total_i, mean_policy_loss = m_policy_loss,
                  mean_vf_loss = Float0 0.0, mean_entropy = m_entropy\<rparr>))))))))))"

fun loss_loop ::
  "config \<Rightarrow> kl_state \<Rightarrow> bool list option \<Rightarrow> position list \<Rightarrow> nat list \<Rightarrow> error + loss_data list" where
  "loss_loop cfg policy vmask ps [] = Inr []"
| "loss_loop cfg policy vmask ps (i # is) =
     (case agent_loss cfg policy vmask ps i of
        Inl e \<Rightarrow> Inl e
      | Inr d \<Rightarrow>
          (case loss_loop cfg policy vmask ps is of Inl e \<Rightarrow> Inl e | Inr ds \<Rightarrow> Inr (d # ds)))"

text \<open>
  \<^verbatim>\<open>torch.stack\<close> of a list of scalars: it needs at least one element, and every
  element must be a tensor.
\<close>

fun all_tensors :: "scalar list \<Rightarrow> real list option" where
  "all_tensors [] = Some []"
| "all_tensors (Tensor0 x # xs) = map_option ((#) x) (all_tensors xs)"
| "all_tensors (Float0 x # xs) = None"

definition torch_stack :: "scalar list \<Rightarrow> error + real list" where
  "torch_stack xs =
     (if xs = [] then Inl RuntimeError
      else case all_tensors xs of None \<Rightarrow> Inl TypeError | Some ys \<Rightarrow> Inr ys)"

text \<open>\<^verbatim>\<open>torch.mean\<close> of a non-empty 1-D tensor.\<close>

definition torch_mean :: "real list \<Rightarrow> real" where
  "torch_mean xs = sum_list xs / real (length xs)"

text \<open>
  What the call leaves on the policy object (lines 228-241), which
  \<^verbatim>\<open>kl_and_loss_stats\<close> then reports; \<open>p_total_loss\<close> is also the value returned.
\<close>

record policy_stats =
  p_total_loss :: real
  p_mean_policy_loss :: real
  p_mean_vf_loss :: real
  p_mean_entropy :: real
  p_vf_explained_var :: real
  p_mean_kl :: real

text \<open>
  The whole function. \<open>explained_variance\<close> is the library function of that name, applied
  to the value targets and the value output of all positions.
\<close>

definition ppo_surrogate_loss ::
  "config \<Rightarrow> kl_state \<Rightarrow> (real list list \<Rightarrow> real list list \<Rightarrow> real) \<Rightarrow> loss_input
     \<Rightarrow> error + policy_stats" where
  "ppo_surrogate_loss cfg policy explained_variance inp =
     (case loss_mask inp of Inl e \<Rightarrow> Inl e | Inr vmask \<Rightarrow>
     (case reduce_mean_valid vmask (map (\<lambda>p. sum_list (action_kl p)) (positions inp)) of
        Inl e \<Rightarrow> Inl e
      | Inr mean_kl \<Rightarrow>
     (case positions inp of
        [] \<Rightarrow> Inl IndexError
      | p0 # _ \<Rightarrow>
     (case loss_loop cfg policy vmask (positions inp) [0..<length (vf_preds p0)] of
        Inl e \<Rightarrow> Inl e
      | Inr loss_data \<Rightarrow>
     (case torch_stack (map (\<lambda>d. Tensor0 (total_loss d)) loss_data) of
        Inl e \<Rightarrow> Inl e
      | Inr totals \<Rightarrow>
     (case torch_stack (map (\<lambda>d. Tensor0 (mean_policy_loss d)) loss_data) of
        Inl e \<Rightarrow> Inl e
      | Inr policy_losses \<Rightarrow>
     (case torch_stack (map mean_vf_loss loss_data) of
        Inl e \<Rightarrow> Inl e
      | Inr vf_losses \<Rightarrow>
     (case torch_stack (map (\<lambda>d. Tensor0 (mean_entropy d)) loss_data) of
        Inl e \<Rightarrow> Inl e
      | Inr entropies \<Rightarrow>
          Inr \<lparr>p_total_loss = sum_list totals,
               p_mean_policy_loss = torch_mean policy_losses,
               p_mean_vf_loss = torch_mean vf_losses,
               p_mean_entropy = torch_mean entropies,
               p_vf_explained_var =
                 explained_variance (map value_targets (positions inp))
                   (map value_fn_out (positions inp)),
               p_mean_kl = mean_kl\<rparr>))))))))"

text \<open>
  The mean over valid positions as the design states it: the sum of the tensor over the
  valid positions, divided by their number. Position \<open>p\<close> of the flattened axis is time
  \<open>p mod max_seq_len\<close> of sequence \<open>p div max_seq_len\<close> (time-major: time \<open>p div B\<close> of
  sequence \<open>p mod B\<close>), and it is valid when the time is below the length of the sequence;
  the rest is padding.
\<close>

definition valid_position :: "nat list \<Rightarrow> nat \<Rightarrow> bool \<Rightarrow> nat \<Rightarrow> bool" where
  "valid_position lengths max_seq_len time_major p =
     (if time_major then p div length lengths < lengths ! (p mod length lengths)
      else p mod max_seq_len < lengths ! (p div max_seq_len))"

definition mean_over_valid :: "nat list \<Rightarrow> nat \<Rightarrow> bool \<Rightarrow> real list \<Rightarrow> real" where
  "mean_over_valid lengths max_seq_len time_major t =
     (\<Sum>p \<in> {p. p < length t \<and> valid_position lengths max_seq_len time_major p}. t ! p)
     / real (card {p. p < length lengths * max_seq_len
                       \<and> valid_position lengths max_seq_len time_major p})"

text \<open>
  An input with one position and three agents that agree on every per-agent quantity, and
  a configuration without \<open>use_gae\<close>.
\<close>

definition example_position :: position where
  "example_position =
     \<lparr>vf_preds = [1, 1, 1], action_logp = [0, 0, 0], advantages = [2, 2, 2],
      value_targets = [3, 3, 3], curr_logp = [0, 0, 0], curr_entropy = [1, 1, 1],
      action_kl = [1 / 2, 1 / 2, 1 / 2], value_fn_out = [2, 2, 2]\<rparr>"

definition example_loss_input :: loss_input where
  "example_loss_input =
     \<lparr>positions = [example_position], seq_lens = [1], state = [], is_time_major = False\<rparr>"

definition example_policy :: kl_state where
  "example_policy = kl_init (1 / 5) (1 / 100)"

definition nogae_config :: config where
  "nogae_config = example_config\<lparr>use_gae := False\<rparr>"

text \<open>
  The quantities of one position for agent \<open>i\<close>, written out: the clipped surrogate, the
  value loss, and the term whose mean is the total loss of the agent.
\<close>

definition surrogate_at :: "config \<Rightarrow> nat \<Rightarrow> position \<Rightarrow> real" where
  "surrogate_at cfg i p =
     surrogate_loss (clip_param cfg) (advantages p ! i) (exp (curr_logp p ! i - action_logp p ! i))"

definition vf_loss_at :: "config \<Rightarrow> nat \<Rightarrow> position \<Rightarrow> real" where
  "vf_loss_at cfg i p =
     vf_loss (vf_clip_param cfg) (vf_preds p ! i) (value_fn_out p ! i) (value_targets p ! i)"

definition total_at :: "config \<Rightarrow> kl_state \<Rightarrow> nat \<Rightarrow> position \<Rightarrow> real" where
  "total_at cfg policy i p =
     (if use_gae cfg
      then - surrogate_at cfg i p + kl_coeff policy * action_kl p ! i
           + vf_loss_coeff cfg * vf_loss_at cfg i p - entropy_coeff cfg * curr_entropy p ! i
      else - surrogate_at cfg i p + kl_coeff policy * action_kl p ! i
           - entropy_coeff cfg * curr_entropy p ! i)"

text \<open>
  The mean every quantity of the loss is to be reduced with, as the design states it: the
  mean over valid positions when the forward pass returned a recurrent state, the
  unweighted mean otherwise.
\<close>

definition mean_spec :: "loss_input \<Rightarrow> real list \<Rightarrow> real" where
  "mean_spec inp t =
     (if state inp \<noteq> []
      then mean_over_valid (seq_lens inp) (length (positions inp) div length (seq_lens inp))
             (is_time_major inp) t
      else sum_list t / real (length t))"


text \<open>
  A recurrent batch: two sequences of lengths 1 and 2, padded to length 2, so that the
  second of the four positions is padding.
\<close>

definition padding_position :: position where
  "padding_position =
     \<lparr>vf_preds = [0, 0, 0], action_logp = [0, 0, 0], advantages = [0, 0, 0],
      value_targets = [0, 0, 0], curr_logp = [0, 0, 0], curr_entropy = [7, 7, 7],
      action_kl = [0, 0, 0], value_fn_out = [0, 0, 0]\<rparr>"

definition rnn_loss_input :: loss_input where
  "rnn_loss_input =
     \<lparr>positions = [example_position, padding_position, example_position, example_position],
      seq_lens = [1, 2], state = [[0]], is_time_major = False\<rparr>"

section \<open>Properties of the KL controller\<close>



lemma update_kl_returns: "snd (update_kl s k) = kl_coeff (fst (update_kl s k))"
  by (simp add: update_kl_def Let_def)




text \<open>
  C1, as stated, fails: with a coefficient of 0 (or a negative one) the first branch
  multiplies by 1.5 without increasing the coefficient. Here \<open>kl_target = 0.01\<close> and
  the measured KL is \<open>0.03\<close>. And with a negative target both tests can hold, and the
  first one wins: with \<open>kl_target = -1\<close> a measured KL of \<open>-1\<close> is below half the
  target, yet the coefficient is multiplied by 1.5.
\<close>

theorem update_kl_strict_counterexample:
  "3 / 100 > 2 * kl_target (kl_init 0 (1 / 100)) \<and>
   \<not> kl_coeff (fst (update_kl (kl_init 0 (1 / 100)) (3 / 100))) > kl_coeff (kl_init 0 (1 / 100)) \<and>
   - 1 < 0.5 * kl_target (kl_init 2 (- 1)) \<and>
   kl_coeff (fst (update_kl (kl_init 2 (- 1)) (- 1))) \<noteq> kl_coeff (kl_init 2 (- 1)) * 0.5"
  by (simp add: update_kl_def kl_init_def Let_def)

text \<open>
  C1, amended: \<open>update_kl\<close> multiplies the coefficient by 1.5 when the measured KL exceeds
  twice the target, otherwise by 0.5 when it is below half the target, otherwise leaves it
  unchanged, and returns the resulting coefficient. The two tests exclude each other when
  the target is not negative. The change is a strict increase, respectively a strict
  decrease, when the starting coefficient is positive.
\<close>

theorem update_kl_amended:
  "snd (update_kl s k) = kl_coeff (fst (update_kl s k)) \<and>
   (k > 2 * kl_target s \<longrightarrow> kl_coeff (fst (update_kl s k)) = kl_coeff s * 1.5) \<and>
   (\<not> k > 2 * kl_target s \<and> k < 0.5 * kl_target s \<longrightarrow>
      kl_coeff (fst (update_kl s k)) = kl_coeff s * 0.5) \<and>
   (0 \<le> kl_target s \<and> k < 0.5 * kl_target s \<longrightarrow>
      kl_coeff (fst (update_kl s k)) = kl_coeff s * 0.5) \<and>
   (\<not> k > 2 * kl_target s \<and> \<not> k < 0.5 * kl_target s \<longrightarrow>
      kl_coeff (fst (update_kl s k)) = kl_coeff s) \<and>
   (0 < kl_coeff s \<and> k > 2 * kl_target s \<longrightarrow>
      kl_coeff s < kl_coeff (fst (update_kl s k))) \<and>
   (0 < kl_coeff s \<and> 0 \<le> kl_target s \<and> k < 0.5 * kl_target s \<longrightarrow>
      kl_coeff (fst (update_kl s k)) < kl_coeff s)"
  by (auto simp add: update_kl_def Let_def)

theorem update_kl_amended_witness:
  "update_kl (kl_init (1 / 5) (1 / 100)) (3 / 100) = (kl_init (3 / 10) (1 / 100), 3 / 10) \<and>
   update_kl (kl_init (1 / 5) (1 / 100)) (3 / 1000) = (kl_init (1 / 10) (1 / 100), 1 / 10) \<and>
   update_kl (kl_init (1 / 5) (1 / 100)) (1 / 100) = (kl_init (1 / 5) (1 / 100), 1 / 5) \<and>
   kl_coeff (kl_init (1 / 5) (1 / 100)) < kl_coeff (fst (update_kl (kl_init (1 / 5) (1 / 100)) (3 / 100))) \<and>
   kl_coeff (fst (update_kl (kl_init (1 / 5) (1 / 100)) (3 / 1000))) < kl_coeff (kl_init (1 / 5) (1 / 100))"
  using update_kl_amended [of "kl_init (1 / 5) (1 / 100)" "3 / 100"]
    update_kl_amended [of "kl_init (1 / 5) (1 / 100)" "3 / 1000"]
    update_kl_amended [of "kl_init (1 / 5) (1 / 100)" "1 / 100"]
  by (simp add: update_kl_def kl_init_def Let_def)



section \<open>Properties of the clipped surrogate\<close>

lemma surrogate_loss_below:
  assumes "0 < a" and "r \<le> 1 + e"
  shows "surrogate_loss e a r = a * r"
proof -
  have "r \<le> clamp r (1 - e) (1 + e)"
    using assms(2) by (simp add: clamp_def)
  then have "a * r \<le> a * clamp r (1 - e) (1 + e)"
    using assms(1) by simp
  then show ?thesis
    by (simp add: surrogate_loss_def)
qed

lemma surrogate_loss_above:
  assumes "0 < a" and "1 + e \<le> r"
  shows "surrogate_loss e a r = a * (1 + e)"
proof -
  have "clamp r (1 - e) (1 + e) = 1 + e"
    using assms(2) by (simp add: clamp_def)
  moreover have "a * (1 + e) \<le> a * r"
    using assms by simp
  ultimately show ?thesis
    by (simp add: surrogate_loss_def)
qed

text \<open>
  C8, as stated, fails: with advantage 1 and clip parameter 0.2, raising the ratio from 0.5
  to 1 (both below \<open>1 + \<epsilon>\<close>) lowers the loss contribution from \<open>-0.5\<close> to \<open>-1\<close>.
\<close>

theorem surrogate_loss_counterexample:
  "(0::real) < 1 \<and> (1 / 2 :: real) \<le> 1 \<and> (1::real) \<le> 1 + 1 / 5 \<and>
   \<not> - surrogate_loss (1 / 5) 1 (1 / 2) \<le> - surrogate_loss (1 / 5) 1 1"
  by (simp add: surrogate_loss_def clamp_def)

text \<open>
  C8, amended: for a positive advantage the loss contribution, minus the clipped
  surrogate, is non-increasing (the surrogate itself non-decreasing) while the ratio grows
  up to \<open>1 + \<epsilon>\<close>, and constant beyond \<open>1 + \<epsilon>\<close>.
\<close>

theorem surrogate_loss_monotone:
  "0 < a \<Longrightarrow>
   (r1 \<le> r2 \<and> r2 \<le> 1 + e \<longrightarrow> - surrogate_loss e a r2 \<le> - surrogate_loss e a r1) \<and>
   (1 + e \<le> r1 \<and> 1 + e \<le> r2 \<longrightarrow> - surrogate_loss e a r1 = - surrogate_loss e a r2)"
  by (simp add: surrogate_loss_below surrogate_loss_above)

theorem surrogate_loss_monotone_witness:
  "(0::real) < 1 \<and> (1 / 2 :: real) \<le> 1 \<and> (1::real) \<le> 1 + 1 / 5 \<and>
   - surrogate_loss (1 / 5) 1 1 \<le> - surrogate_loss (1 / 5) 1 (1 / 2) \<and>
   (1 + 1 / 5 :: real) \<le> 3 / 2 \<and> (1 + 1 / 5 :: real) \<le> 2 \<and>
   - surrogate_loss (1 / 5) 1 (3 / 2) = - surrogate_loss (1 / 5) 1 2"
  using surrogate_loss_monotone [of 1 "1 / 2" 1 "1 / 5"]
    surrogate_loss_monotone [of 1 "3 / 2" 2 "1 / 5"]
  by simp

section \<open>Properties of the trajectory postprocessor\<close>

subsection \<open>Stacking and the loop over the three agents\<close>







lemma agents_loop3:
  "agents_loop cfg ext rew sb [i0, i1, i2] = (Inr bs, evs) \<Longrightarrow>
     \<exists>b0 b1 b2 e0 e1 e2. bs = [b0, b1, b2] \<and> evs = e0 @ e1 @ e2 \<and>
        agent_step cfg ext rew sb i0 = (Inr b0, e0) \<and>
        agent_step cfg ext rew sb i1 = (Inr b1, e1) \<and>
        agent_step cfg ext rew sb i2 = (Inr b2, e2)"
  by (auto split: prod.splits sum.splits)

lemma postprocess_Inr:
  assumes "compute_gae_for_sample_batch cfg ext sb = (Inr out, evs)"
  shows "\<exists>infos rew b0 b1 b2 e0 e1 e2.
           sb INFOS = Some infos \<and> infos_rewards infos = Inr rew \<and> evs = e0 @ e1 @ e2 \<and>
           agent_step cfg ext rew sb ''0'' = (Inr b0, e0) \<and>
           agent_step cfg ext rew sb ''1'' = (Inr b1, e1) \<and>
           agent_step cfg ext rew sb ''2'' = (Inr b2, e2) \<and>
           stack_columns stacked_columns [b0, b1, b2] sb = Inr out"
proof -
  from assms obtain infos rew bs where
    i: "sb INFOS = Some infos" and r: "infos_rewards infos = Inr rew"
    and l: "agents_loop cfg ext rew sb agent_keys = (Inr bs, evs)"
    and s: "stack_columns stacked_columns bs sb = Inr out"
    by (auto simp add: compute_gae_for_sample_batch_def getitem_def
        split: option.splits sum.splits prod.splits)
  from l [unfolded agent_keys_def] agents_loop3 [of cfg ext rew sb "''0''" "''1''" "''2''" bs evs]
  obtain b0 b1 b2 e0 e1 e2 where "bs = [b0, b1, b2]" "evs = e0 @ e1 @ e2"
        "agent_step cfg ext rew sb ''0'' = (Inr b0, e0)"
        "agent_step cfg ext rew sb ''1'' = (Inr b1, e1)"
        "agent_step cfg ext rew sb ''2'' = (Inr b2, e2)"
    by blast
  with i r s show ?thesis by blast
qed

subsection \<open>Runs on the example segments\<close>

lemma py_int_digits [simp]: "py_int ''0'' = 0" "py_int ''1'' = 1" "py_int ''2'' = 2"
  by (simp_all add: py_int_def)

lemma example_infos_rewards:
  "infos_rewards (Object1
        [[(''rewards'', RewardDict [(''0'', 1), (''1'', 1), (''2'', 1)])],
         [(''rewards'', RewardDict [(''0'', 2), (''1'', 2), (''2'', 2)])]])
   = Inr (Some [(''0'', [1, 2]), (''1'', [1, 2]), (''2'', [1, 2])])"
  by (simp add: infos_rewards_def single_sample_def concat_samples_def)

lemmas run_simps = compute_gae_for_sample_batch_def example_segment_def
      getitem_def agent_keys_def agent_step_def agent_rewards_def bootstrap_value_def
      example_externals_def example_config_def reference_advantages_def stacked_columns_def
      np_stack_def Let_def upt_rec nth_append numeral_3_eq_3 policy_value_def
      infos_rewards_def single_sample_def concat_samples_def

lemma placeholder_run:
  "compute_gae_for_sample_batch example_config example_externals placeholder_segment =
     (Inr (placeholder_segment
         (REWARDS \<mapsto> Float2 3 [[0, 0, 0], [0, 0, 0]],
          VF_PREDS \<mapsto> Float2 3 [[1, 2, 3], [4, 5, 6]],
          ADVANTAGES \<mapsto> Float2 3 [[- 1, - 2, - 3], [- 4, - 5, - 6]],
          VALUE_TARGETS \<mapsto> Float2 3 [[0, 0, 0], [0, 0, 0]])),
      [AdvantagesCall 0 0, AdvantagesCall 1 0, AdvantagesCall 2 0])"
  by (simp add: placeholder_segment_def run_simps)


lemma wide_run:
  "compute_gae_for_sample_batch example_config example_externals wide_segment =
     (Inr (wide_segment
         (REWARDS \<mapsto> Float2 3 [[1, 1, 1], [2, 2, 2]],
          VF_PREDS \<mapsto> Float2 3 [[1, 2, 3], [4, 5, 6]],
          ADVANTAGES \<mapsto> Float2 3 [[1, 0, - 1], [- 2, - 3, - 4]],
          VALUE_TARGETS \<mapsto> Float2 3 [[2, 2, 2], [2, 2, 2]])),
      [AdvantagesCall 0 0, AdvantagesCall 1 0, AdvantagesCall 2 0])"
  by (simp add: wide_segment_def run_simps)

lemma narrow_run:
  "compute_gae_for_sample_batch example_config example_externals narrow_segment =
     (Inl IndexError, [AdvantagesCall 0 0, AdvantagesCall 1 0])"
  by (simp add: narrow_segment_def run_simps)

lemma two_agent_infos_run:
  "compute_gae_for_sample_batch example_config example_externals two_agent_infos_segment =
     (Inl KeyError, [AdvantagesCall 0 0, AdvantagesCall 1 0])"
  by (simp add: two_agent_infos_segment_def run_simps)

lemma no_rewards_infos_run:
  "compute_gae_for_sample_batch example_config example_externals no_rewards_infos_segment =
     (Inl KeyError, [])"
  by (simp add: no_rewards_infos_segment_def run_simps)



subsection \<open>The bootstrap value and the events of a run\<close>










lemma agent_step_narrow:
  assumes "sb VF_PREDS = Some (Float2 w rows)" and "w \<le> py_int i"
  shows "\<exists>e. agent_step cfg ext rew sb i = (Inl e, [])"
  using assms
  by (auto simp add: agent_step_def getitem_def split: sum.splits option.splits)

lemma agent_step_narrow_IndexError:
  assumes "sb VF_PREDS = Some (Float2 w rows)" and "w \<le> py_int i"
    and "agent_rewards rew sb i = Inr r" and "sb ACTIONS = Some (Float2 wa acts)"
  shows "agent_step cfg ext rew sb i = (Inl IndexError, [])"
  using assms
  by (simp add: agent_step_def getitem_def)

subsection \<open>The claims about the postprocessor\<close>

text \<open>
  C2, as stated, fails. There is no fallback for malformed infos: infos that name only
  agents 0 and 1 raise \<open>KeyError\<close> when the loop reaches agent 2, and infos without a
  \<^verbatim>\<open>"rewards"\<close> entry raise \<open>KeyError\<close> before the loop. The only fallback is for an
  infos column of dtype float32, and there the reward column of every agent is the infos
  array, not the shared reward sequence: with infos \<open>[0, 0]\<close> and rewards \<open>[3, 6]\<close> the
  stacked rewards are all 0.
\<close>

theorem fallback_counterexample:
  "compute_gae_for_sample_batch example_config example_externals two_agent_infos_segment =
     (Inl KeyError, [AdvantagesCall 0 0, AdvantagesCall 1 0]) \<and>
   compute_gae_for_sample_batch example_config example_externals no_rewards_infos_segment =
     (Inl KeyError, []) \<and>
   placeholder_segment REWARDS = Some (Float1 [3, 6]) \<and>
   fst (compute_gae_for_sample_batch example_config example_externals placeholder_segment) =
     Inr (placeholder_segment
         (REWARDS \<mapsto> Float2 3 [[0, 0, 0], [0, 0, 0]],
          VF_PREDS \<mapsto> Float2 3 [[1, 2, 3], [4, 5, 6]],
          ADVANTAGES \<mapsto> Float2 3 [[- 1, - 2, - 3], [- 4, - 5, - 6]],
          VALUE_TARGETS \<mapsto> Float2 3 [[0, 0, 0], [0, 0, 0]]))"
  by (simp add: two_agent_infos_run no_rewards_infos_run placeholder_run)
    (simp add: placeholder_segment_def example_segment_def)

text \<open>
  C2, amended: for every trajectory segment whose infos column is a float32 array (the
  placeholder that carries no decomposed rewards), the postprocessor attempts no
  deserialisation and raises nothing on account of the reward info; the reward column of
  every agent is that infos array; and the run is the rest of the postprocessor on it, so
  it completes normally whenever the per-agent advantage computations and the stacking do.
\<close>

theorem placeholder_infos_fallback:
  assumes "sb INFOS = Some infos" and "is_float32 infos"
  shows "infos_rewards infos = Inr None \<and>
         agent_rewards None sb i = Inr infos \<and>
         compute_gae_for_sample_batch cfg ext sb =
           (case touch_columns sb
                   (map STATE_OUT [0..<num_state_tensors cfg] @ [NEXT_OBS, ACTIONS, REWARDS]) of
              Inl e \<Rightarrow> (Inl e, [])
            | Inr u \<Rightarrow>
                (case agents_loop cfg ext None sb agent_keys of
                   (Inl e, evs) \<Rightarrow> (Inl e, evs)
                 | (Inr batches, evs) \<Rightarrow> (stack_columns stacked_columns batches sb, evs)))"
  using assms
  by (simp add: infos_rewards_def agent_rewards_def getitem_def
      compute_gae_for_sample_batch_def)

theorem placeholder_infos_fallback_witness:
  "placeholder_segment INFOS = Some (Float1 [0, 0]) \<and> is_float32 (Float1 [0, 0]) \<and>
   infos_rewards (Float1 [0, 0]) = Inr None \<and>
   agent_rewards None placeholder_segment ''1'' = Inr (Float1 [0, 0]) \<and>
   compute_gae_for_sample_batch example_config example_externals placeholder_segment =
     (Inr (placeholder_segment
         (REWARDS \<mapsto> Float2 3 [[0, 0, 0], [0, 0, 0]],
          VF_PREDS \<mapsto> Float2 3 [[1, 2, 3], [4, 5, 6]],
          ADVANTAGES \<mapsto> Float2 3 [[- 1, - 2, - 3], [- 4, - 5, - 6]],
          VALUE_TARGETS \<mapsto> Float2 3 [[0, 0, 0], [0, 0, 0]])),
      [AdvantagesCall 0 0, AdvantagesCall 1 0, AdvantagesCall 2 0])"
  using placeholder_infos_fallback [of placeholder_segment "Float1 [0, 0]" "''1''"
      example_config example_externals] placeholder_run
  by (simp add: placeholder_segment_def)




text \<open>
  C5, as stated, fails: no width is checked against the agent count. With four action and
  value slots the postprocessor returns a batch built from slots 0 to 2; with two value
  slots it raises only at agent 2, after the advantage computations for agents 0 and 1.
\<close>

theorem width_check_counterexample:
  "wide_segment ACTIONS = Some (Float2 4 [[0, 1, 2, 3], [2, 1, 0, 3]]) \<and>
   wide_segment VF_PREDS = Some (Float2 4 [[1, 2, 3, 7], [4, 5, 6, 7]]) \<and>
   compute_gae_for_sample_batch example_config example_externals wide_segment =
     (Inr (wide_segment
         (REWARDS \<mapsto> Float2 3 [[1, 1, 1], [2, 2, 2]],
          VF_PREDS \<mapsto> Float2 3 [[1, 2, 3], [4, 5, 6]],
          ADVANTAGES \<mapsto> Float2 3 [[1, 0, - 1], [- 2, - 3, - 4]],
          VALUE_TARGETS \<mapsto> Float2 3 [[2, 2, 2], [2, 2, 2]])),
      [AdvantagesCall 0 0, AdvantagesCall 1 0, AdvantagesCall 2 0]) \<and>
   compute_gae_for_sample_batch example_config example_externals narrow_segment =
     (Inl IndexError, [AdvantagesCall 0 0, AdvantagesCall 1 0])"
  by (simp add: wide_run narrow_run) (simp add: wide_segment_def)

text \<open>
  C5, amended: for every segment whose value-prediction array has fewer than 3 slots per
  timestep, the postprocessor raises instead of returning a batch; the agent whose slot is
  missing raises \<open>IndexError\<close> before its own advantage computation (the agents before it
  have been processed by then). A width above 3, and any width of the action vector, is
  not detected.
\<close>

theorem narrow_vf_preds_raises:
  assumes "sb VF_PREDS = Some (Float2 w rows)" and "w < 3"
  shows "(\<exists>e. fst (compute_gae_for_sample_batch cfg ext sb) = Inl e) \<and>
         (\<forall>i rew r wa acts. w \<le> py_int i \<and> agent_rewards rew sb i = Inr r \<and>
              sb ACTIONS = Some (Float2 wa acts) \<longrightarrow>
              agent_step cfg ext rew sb i = (Inl IndexError, []))"
proof -
  have "\<exists>e. fst (compute_gae_for_sample_batch cfg ext sb) = Inl e"
  proof (cases "compute_gae_for_sample_batch cfg ext sb")
    case (Pair res evs)
    show ?thesis
    proof (cases res)
      case (Inl e)
      with Pair show ?thesis by simp
    next
      case (Inr out)
      with Pair postprocess_Inr [of cfg ext sb out evs] obtain rew b2 e2 where
        "agent_step cfg ext rew sb ''2'' = (Inr b2, e2)" by blast
      moreover from assms have le: "w \<le> py_int ''2''" by simp
      from assms(1) le have "\<exists>e. agent_step cfg ext rew sb ''2'' = (Inl e, [])"
        by (rule agent_step_narrow)
      ultimately show ?thesis by simp
    qed
  qed
  moreover have "agent_step cfg ext rew sb i = (Inl IndexError, [])"
    if "w \<le> py_int i" "agent_rewards rew sb i = Inr r" "sb ACTIONS = Some (Float2 wa acts)"
    for i rew r wa acts
    using assms(1) that by (rule agent_step_narrow_IndexError)
  ultimately show ?thesis by blast
qed

theorem narrow_vf_preds_raises_witness:
  "narrow_segment VF_PREDS = Some (Float2 2 [[1, 2], [4, 5]]) \<and> (2::nat) < 3 \<and>
   fst (compute_gae_for_sample_batch example_config example_externals narrow_segment)
     = Inl IndexError \<and>
   (2::nat) \<le> py_int ''2'' \<and>
   agent_step example_config example_externals None narrow_segment ''2'' = (Inl IndexError, [])"
  using narrow_vf_preds_raises [of narrow_segment 2 "[[1, 2], [4, 5]]" example_config
      example_externals]
  by (simp add: narrow_run)
    (simp add: narrow_segment_def example_segment_def agent_step_def agent_rewards_def
      getitem_def)



section \<open>Properties of the surrogate loss evaluator\<close>

subsection \<open>The entry of one agent and the aggregation\<close>

lemma tensor_col_Inr: "tensor_col f i ps = Inr c \<Longrightarrow> c = map (\<lambda>p. f p ! i) ps"
  by (simp add: tensor_col_def split: if_splits)

lemma agent_loss_result:
  assumes "agent_loss cfg policy m ps i = Inr d"
  shows "reduce_mean_valid m (map (\<lambda>p. curr_entropy p ! i) ps) = Inr (mean_entropy d) \<and>
         reduce_mean_valid m (map (\<lambda>p. - surrogate_at cfg i p) ps) = Inr (mean_policy_loss d) \<and>
         reduce_mean_valid m (map (total_at cfg policy i) ps) = Inr (total_loss d) \<and>
         (if use_gae cfg
          then \<exists>v. reduce_mean_valid m (map (vf_loss_at cfg i) ps) = Inr v \<and> mean_vf_loss d = Tensor0 v
          else mean_vf_loss d = Float0 0)"
proof -
  from assms obtain logp old_logp entropy adv kl where
    c: "tensor_col curr_logp i ps = Inr logp" "tensor_col action_logp i ps = Inr old_logp"
       "tensor_col curr_entropy i ps = Inr entropy" "tensor_col advantages i ps = Inr adv"
       "tensor_col action_kl i ps = Inr kl"
    by (auto simp add: agent_loss_def Let_def split: sum.splits if_splits)
  note cols = c [THEN tensor_col_Inr]
  have surr: "map2 (surrogate_loss (clip_param cfg)) adv (map2 (\<lambda>a b. exp (a - b)) logp old_logp)
      = map (surrogate_at cfg i) ps"
    by (simp add: cols surrogate_at_def [abs_def] zip_map_map zip_same_conv_map comp_def)
  show ?thesis
  proof (cases "use_gae cfg")
    case False
    with assms c show ?thesis
      unfolding agent_loss_def Let_def surr
      by (auto simp add: cols total_at_def [abs_def] surrogate_at_def [abs_def]
          vf_loss_at_def [abs_def] zip_map_map zip_same_conv_map comp_def split: sum.splits)
  next
    case True
    with assms c obtain prev vout tg where
      c2: "tensor_col vf_preds i ps = Inr prev" "tensor_col value_fn_out i ps = Inr vout"
       "tensor_col value_targets i ps = Inr tg"
      by (auto simp add: agent_loss_def Let_def split: sum.splits if_splits)
    note cols2 = c2 [THEN tensor_col_Inr]
    have vf: "map (\<lambda>(p, v, t). vf_loss (vf_clip_param cfg) p v t) (zip prev (zip vout tg))
       = map (vf_loss_at cfg i) ps"
      by (simp add: cols2 vf_loss_at_def [abs_def] zip_map_map zip_same_conv_map comp_def)
    from True assms c c2 show ?thesis
      unfolding agent_loss_def Let_def surr vf
      by (auto simp add: cols cols2 total_at_def [abs_def] surrogate_at_def [abs_def]
          vf_loss_at_def [abs_def] zip_map_map zip_same_conv_map comp_def split: sum.splits)
  qed
qed

lemma all_tensors_map: "all_tensors (map (\<lambda>d. Tensor0 (f d)) ds) = Some (map f ds)"
  by (induction ds) simp_all

lemma torch_stack_tensors:
  "torch_stack (map (\<lambda>d. Tensor0 (f d)) ds) = (if ds = [] then Inl RuntimeError else Inr (map f ds))"
  by (simp add: torch_stack_def all_tensors_map)

lemma all_tensors_float: "Float0 x \<in> set xs \<Longrightarrow> all_tensors xs = None"
  by (induction xs rule: all_tensors.induct) auto

lemma torch_stack_float: "Float0 x \<in> set xs \<Longrightarrow> torch_stack xs = Inl TypeError"
  by (auto simp add: torch_stack_def all_tensors_float)

lemma loss_loop_Inr:
  "loss_loop cfg policy m ps js = Inr ds \<Longrightarrow>
     length ds = length js \<and> (\<forall>k < length js. agent_loss cfg policy m ps (js ! k) = Inr (ds ! k))"
proof (induction js arbitrary: ds)
  case Nil
  then show ?case by simp
next
  case (Cons j js)
  from Cons.prems obtain d ds' where
    d: "agent_loss cfg policy m ps j = Inr d" and r: "loss_loop cfg policy m ps js = Inr ds'"
    and ds: "ds = d # ds'"
    by (auto split: sum.splits)
  from Cons.IH [OF r] d ds show ?case
    by (auto simp add: nth_Cons split: nat.splits)
qed

lemma ppo_Inr:
  assumes "ppo_surrogate_loss cfg policy ev inp = Inr out"
  obtains m ds vfs where "loss_mask inp = Inr m" and "positions inp \<noteq> []" and "ds \<noteq> []"
    and "loss_loop cfg policy m (positions inp)
             [0..<length (vf_preds (hd (positions inp)))] = Inr ds"
    and "reduce_mean_valid m (map (\<lambda>p. sum_list (action_kl p)) (positions inp))
             = Inr (p_mean_kl out)"
    and "torch_stack (map mean_vf_loss ds) = Inr vfs"
    and "p_total_loss out = sum_list (map total_loss ds)"
    and "p_mean_policy_loss out = torch_mean (map mean_policy_loss ds)"
    and "p_mean_vf_loss out = torch_mean vfs"
    and "p_mean_entropy out = torch_mean (map mean_entropy ds)"
proof -
  obtain m where m: "loss_mask inp = Inr m"
    using assms by (cases "loss_mask inp") (simp_all add: ppo_surrogate_loss_def)
  obtain k where k: "reduce_mean_valid m (map (\<lambda>p. sum_list (action_kl p)) (positions inp)) = Inr k"
    using assms m
    by (cases "reduce_mean_valid m (map (\<lambda>p. sum_list (action_kl p)) (positions inp))")
      (simp_all add: ppo_surrogate_loss_def)
  obtain p0 rest where ps: "positions inp = p0 # rest"
    using assms m k by (cases "positions inp") (simp_all add: ppo_surrogate_loss_def)
  obtain ds where ds: "loss_loop cfg policy m (positions inp) [0..<length (vf_preds p0)] = Inr ds"
    using assms m k ps
    by (cases "loss_loop cfg policy m (positions inp) [0..<length (vf_preds p0)]")
      (simp_all add: ppo_surrogate_loss_def)
  have ne: "ds \<noteq> []"
    using assms m k ps ds by (auto simp add: ppo_surrogate_loss_def torch_stack_tensors)
  obtain vfs where vfs: "torch_stack (map mean_vf_loss ds) = Inr vfs"
    using assms m k ps ds ne
    by (cases "torch_stack (map mean_vf_loss ds)")
      (simp_all add: ppo_surrogate_loss_def torch_stack_tensors)
  have "out = \<lparr>p_total_loss = sum_list (map total_loss ds),
               p_mean_policy_loss = torch_mean (map mean_policy_loss ds),
               p_mean_vf_loss = torch_mean vfs,
               p_mean_entropy = torch_mean (map mean_entropy ds),
               p_vf_explained_var =
                 ev (map value_targets (positions inp)) (map value_fn_out (positions inp)),
               p_mean_kl = k\<rparr>"
    using assms m k ps ds ne vfs
    by (simp add: ppo_surrogate_loss_def torch_stack_tensors)
  with m k ps ds ne vfs show ?thesis by (intro that [of m ds vfs]) simp_all
qed

lemma ppo_use_gae:
  assumes "ppo_surrogate_loss cfg policy ev inp = Inr out"
  shows "use_gae cfg"
proof (rule ccontr)
  assume n: "\<not> use_gae cfg"
  from assms obtain m ds vfs where
    ds: "ds \<noteq> []"
    and l: "loss_loop cfg policy m (positions inp)
             [0..<length (vf_preds (hd (positions inp)))] = Inr ds"
    and st: "torch_stack (map mean_vf_loss ds) = Inr vfs"
    by (rule ppo_Inr)
  from ds obtain d ds' where c: "ds = d # ds'" by (cases ds) auto
  with loss_loop_Inr [OF l] have "0 < length (vf_preds (hd (positions inp)))"
    by auto
  with loss_loop_Inr [OF l] c
  have "agent_loss cfg policy m (positions inp) 0 = Inr d"
    by (auto dest!: spec [of _ 0])
  from agent_loss_result [OF this] n have "mean_vf_loss d = Float0 0" by simp
  with c have "Float0 0 \<in> set (map mean_vf_loss ds)" by simp
  from torch_stack_float [OF this] st show False by simp
qed



subsection \<open>The mask and the mean over valid positions\<close>

lemma length_concat_uniform:
  "\<forall>r \<in> set rows. length r = n \<Longrightarrow> length (concat rows) = length rows * n"
  by (induction rows) simp_all

lemma nth_concat_uniform:
  assumes "\<forall>r \<in> set rows. length r = n" and "p < length rows * n"
  shows "concat rows ! p = rows ! (p div n) ! (p mod n)"
  using assms
proof (induction rows arbitrary: p)
  case Nil
  then show ?case by simp
next
  case (Cons r rows)
  then have n: "0 < n" and r: "length r = n" by (cases n; simp)+
  show ?case
  proof (cases "p < n")
    case True
    with r show ?thesis by (simp add: nth_append)
  next
    case False
    then have ge: "n \<le> p" by simp
    with Cons.prems have "p - n < length rows * n" by simp
    with Cons have "concat rows ! (p - n) = rows ! ((p - n) div n) ! ((p - n) mod n)"
      by simp
    with False r n ge show ?thesis
      by (simp add: nth_append le_div_geq le_mod_geq)
  qed
qed

lemma length_flat_mask:
  "length (concat (sequence_mask lengths maxlen tm)) = length lengths * maxlen"
proof (cases tm)
  case True
  have "length (concat (map (\<lambda>t. map (\<lambda>l. t < l) lengths) [0..<maxlen]))
      = length (map (\<lambda>t. map (\<lambda>l. t < l) lengths) [0..<maxlen]) * length lengths"
    by (rule length_concat_uniform) simp
  with True show ?thesis by (simp add: sequence_mask_def mult.commute)
next
  case False
  have "length (concat (map (\<lambda>l. map (\<lambda>t. t < l) [0..<maxlen]) lengths))
      = length (map (\<lambda>l. map (\<lambda>t. t < l) [0..<maxlen]) lengths) * maxlen"
    by (rule length_concat_uniform) simp
  with False show ?thesis by (simp add: sequence_mask_def)
qed

lemma nth_flat_mask:
  assumes "p < length lengths * maxlen"
  shows "concat (sequence_mask lengths maxlen tm) ! p = valid_position lengths maxlen tm p"
proof (cases tm)
  case True
  let ?rows = "map (\<lambda>t. map (\<lambda>l. t < l) lengths) [0..<maxlen]"
  from assms have p: "p < length ?rows * length lengths" by (simp add: mult.commute)
  have "concat ?rows ! p = ?rows ! (p div length lengths) ! (p mod length lengths)"
    by (rule nth_concat_uniform [OF _ p]) simp
  moreover from assms have "p div length lengths < maxlen"
    by (simp add: less_mult_imp_div_less mult.commute)
  moreover from assms have "p mod length lengths < length lengths"
    by (cases "length lengths") simp_all
  ultimately show ?thesis
    using True by (simp add: sequence_mask_def valid_position_def)
next
  case False
  let ?rows = "map (\<lambda>l. map (\<lambda>t. t < l) [0..<maxlen]) lengths"
  from assms have p: "p < length ?rows * maxlen" by simp
  have "concat ?rows ! p = ?rows ! (p div maxlen) ! (p mod maxlen)"
    by (rule nth_concat_uniform [OF _ p]) simp
  moreover from assms have "p div maxlen < length lengths"
    by (simp add: less_mult_imp_div_less)
  moreover from assms have "p mod maxlen < maxlen"
    by (cases maxlen) simp_all
  ultimately show ?thesis
    using False by (simp add: sequence_mask_def valid_position_def)
qed

lemma sum_list_filter_fst:
  "sum_list (map snd (filter fst zs)) = sum_list (map (\<lambda>z. if fst z then snd z else 0) zs)"
  for zs :: "(bool \<times> real) list"
  by (induction zs) simp_all

lemma masked_sum:
  fixes t :: "real list"
  assumes "length m = length t"
  shows "sum_list (map snd (filter fst (zip m t))) = (\<Sum>p \<in> {p. p < length t \<and> m ! p}. t ! p)"
proof -
  have "sum_list (map snd (filter fst (zip m t)))
      = sum_list (map (\<lambda>z. if fst z then snd z else 0) (zip m t))"
    by (rule sum_list_filter_fst)
  also have "\<dots> = (\<Sum>i = 0..<length t.
                      map (\<lambda>z. if fst z then snd z else 0) (zip m t) ! i)"
    using assms by (simp add: sum_list_sum_nth)
  also have "\<dots> = (\<Sum>i = 0..<length t. if m ! i then t ! i else 0)"
    using assms by (intro sum.cong) simp_all
  also have "\<dots> = (\<Sum>i \<in> {i \<in> {0..<length t}. m ! i}. t ! i)"
    by (rule sum.inter_filter [symmetric]) simp
  also have "{i \<in> {0..<length t}. m ! i} = {p. p < length t \<and> m ! p}"
    by auto
  finally show ?thesis .
qed

lemma num_valid: "length (filter id m) = card {p. p < length m \<and> m ! p}"
  by (simp add: length_filter_conv_card)

lemma reduce_mean_valid_masked:
  assumes "length t = length lengths * maxlen"
  shows "reduce_mean_valid (Some (concat (sequence_mask lengths maxlen tm))) t =
           Inr (mean_over_valid lengths maxlen tm t)"
proof -
  let ?m = "concat (sequence_mask lengths maxlen tm)"
  let ?n = "length lengths * maxlen"
  have len: "length ?m = length t"
    using assms by (simp add: length_flat_mask)
  have s: "{p. p < ?n \<and> ?m ! p} = {p. p < ?n \<and> valid_position lengths maxlen tm p}"
    by (auto simp add: nth_flat_mask)
  have "sum_list (map snd (filter fst (zip ?m t))) = (\<Sum>p \<in> {p. p < ?n \<and> ?m ! p}. t ! p)"
    using masked_sum [OF len] assms by simp
  moreover have "length (filter id ?m) = card {p. p < ?n \<and> ?m ! p}"
    using num_valid [of ?m] by (simp add: length_flat_mask)
  ultimately show ?thesis
    unfolding reduce_mean_valid_def mean_over_valid_def s
    by (simp add: len assms)
qed

lemma reduce_mean_valid_Inr_length:
  "reduce_mean_valid (Some m) t = Inr x \<Longrightarrow> length m = length t"
  by (simp add: reduce_mean_valid_def split: if_splits)

lemma reduce_mean_valid_spec:
  assumes m: "loss_mask inp = Inr vmask"
    and k: "reduce_mean_valid vmask t0 = Inr x" "length t0 = length (positions inp)"
    and t: "length t = length (positions inp)"
  shows "reduce_mean_valid vmask t = Inr (mean_spec inp t)"
proof (cases "state inp = []")
  case True
  with m have "vmask = None" by (simp add: loss_mask_def)
  with True show ?thesis
    by (simp add: reduce_mean_valid_def mean_spec_def)
next
  case False
  let ?B = "length (seq_lens inp)"
  let ?L = "length (positions inp) div ?B"
  from False m have v: "vmask = Some (concat (sequence_mask (seq_lens inp) ?L (is_time_major inp)))"
    by (auto simp add: loss_mask_def Let_def split: if_splits)
  with k have "length t0 = ?B * ?L"
    by (auto dest!: reduce_mean_valid_Inr_length simp add: length_flat_mask)
  with k t have "length t = ?B * ?L" by simp
  from reduce_mean_valid_masked [OF this] v False show ?thesis
    by (simp add: mean_spec_def)
qed

subsection \<open>Runs on the example inputs\<close>

lemmas loss_simps = ppo_surrogate_loss_def example_loss_input_def example_position_def
  example_config_def nogae_config_def example_policy_def kl_init_def loss_mask_def
  reduce_mean_valid_def agent_loss_def tensor_col_def surrogate_loss_def clamp_def
  vf_loss_def torch_stack_def torch_mean_def Let_def upt_rec numeral_3_eq_3



lemma nogae_agent_loss:
  "agent_loss nogae_config example_policy None [example_position] 0 =
     Inr \<lparr>total_loss = - (19 / 10), mean_policy_loss = - 2, mean_vf_loss = Float0 0,
          mean_entropy = 1\<rparr>"
  by (simp add: loss_simps)

lemma nogae_loss:
  "ppo_surrogate_loss nogae_config example_policy (\<lambda>y pred. 0) example_loss_input = Inl TypeError"
  by (simp add: loss_simps)


lemma four_div_two: "Suc (Suc (Suc (Suc 0))) div Suc (Suc 0) = Suc (Suc 0)"
  by code_simp

lemma rnn_loss_mask: "loss_mask rnn_loss_input = Inr (Some [True, False, True, True])"
  by (simp add: loss_mask_def rnn_loss_input_def sequence_mask_def Let_def upt_rec four_div_two)

lemma rnn_agent_loss:
  "agent_loss example_config example_policy (Some [True, False, True, True])
     (positions rnn_loss_input) 0 =
     Inr \<lparr>total_loss = - (9 / 10), mean_policy_loss = - 2, mean_vf_loss = Tensor0 1,
          mean_entropy = 1\<rparr>"
  by (simp add: loss_simps rnn_loss_input_def padding_position_def)

lemma rnn_loss:
  "ppo_surrogate_loss example_config example_policy (\<lambda>y pred. 0) rnn_loss_input =
     Inr \<lparr>p_total_loss = - (27 / 10), p_mean_policy_loss = - 2, p_mean_vf_loss = 1,
          p_mean_entropy = 1, p_vf_explained_var = 0, p_mean_kl = 3 / 2\<rparr>"
  by (simp add: loss_simps rnn_loss_input_def padding_position_def sequence_mask_def four_div_two)

subsection \<open>The claims about the loss\<close>






text \<open>
  C6: every mean in the loss is \<open>mean_spec\<close> of its tensor: with a non-empty recurrent
  state, the sum over the positions that the sequence lengths mark valid on the flattened
  time axis, divided by the number of valid positions; with an empty state, the unweighted
  mean over all positions. This holds for the mean KL and, for every agent, for the mean
  entropy, the mean policy loss, the mean value loss (a mean only with \<open>use_gae\<close>) and
  the total loss.
\<close>

theorem means_over_valid:
  assumes "loss_mask inp = Inr vmask"
  shows "(\<forall>k. reduce_mean_valid vmask (map (\<lambda>p. sum_list (action_kl p)) (positions inp)) = Inr k \<longrightarrow>
            k = mean_spec inp (map (\<lambda>p. sum_list (action_kl p)) (positions inp))) \<and>
         (\<forall>out. ppo_surrogate_loss cfg policy ev inp = Inr out \<longrightarrow>
            p_mean_kl out = mean_spec inp (map (\<lambda>p. sum_list (action_kl p)) (positions inp))) \<and>
         (\<forall>d. agent_loss cfg policy vmask (positions inp) i = Inr d \<longrightarrow>
            mean_entropy d = mean_spec inp (map (\<lambda>p. curr_entropy p ! i) (positions inp)) \<and>
            mean_policy_loss d
              = mean_spec inp (map (\<lambda>p. - surrogate_at cfg i p) (positions inp)) \<and>
            mean_vf_loss d
              = (if use_gae cfg
                 then Tensor0 (mean_spec inp (map (vf_loss_at cfg i) (positions inp)))
                 else Float0 0) \<and>
            total_loss d = mean_spec inp (map (total_at cfg policy i) (positions inp)))"
proof -
  have spec: "reduce_mean_valid vmask (map f (positions inp)) = Inr (mean_spec inp (map f (positions inp)))"
    if "reduce_mean_valid vmask (map g (positions inp)) = Inr x" for f g x
    by (rule reduce_mean_valid_spec [OF assms that]) simp_all
  have kl: "k = mean_spec inp (map (\<lambda>p. sum_list (action_kl p)) (positions inp))"
    if "reduce_mean_valid vmask (map (\<lambda>p. sum_list (action_kl p)) (positions inp)) = Inr k" for k
    using spec [OF that, of "\<lambda>p. sum_list (action_kl p)"] that by simp
  have out: "p_mean_kl out = mean_spec inp (map (\<lambda>p. sum_list (action_kl p)) (positions inp))"
    if "ppo_surrogate_loss cfg policy ev inp = Inr out" for out
  proof -
    from that obtain m where "loss_mask inp = Inr m"
      and "reduce_mean_valid m (map (\<lambda>p. sum_list (action_kl p)) (positions inp))
             = Inr (p_mean_kl out)"
      by (rule ppo_Inr)
    with assms kl show ?thesis by simp
  qed
  have agent: "mean_entropy d = mean_spec inp (map (\<lambda>p. curr_entropy p ! i) (positions inp)) \<and>
            mean_policy_loss d
              = mean_spec inp (map (\<lambda>p. - surrogate_at cfg i p) (positions inp)) \<and>
            mean_vf_loss d
              = (if use_gae cfg
                 then Tensor0 (mean_spec inp (map (vf_loss_at cfg i) (positions inp)))
                 else Float0 0) \<and>
            total_loss d = mean_spec inp (map (total_at cfg policy i) (positions inp))"
    if a: "agent_loss cfg policy vmask (positions inp) i = Inr d" for d
  proof -
    from agent_loss_result [OF a]
    have e: "reduce_mean_valid vmask (map (\<lambda>p. curr_entropy p ! i) (positions inp))
               = Inr (mean_entropy d)"
      and r: "reduce_mean_valid vmask (map (\<lambda>p. - surrogate_at cfg i p) (positions inp))
               = Inr (mean_policy_loss d)"
        "reduce_mean_valid vmask (map (total_at cfg policy i) (positions inp)) = Inr (total_loss d)"
        "if use_gae cfg
          then \<exists>v. reduce_mean_valid vmask (map (vf_loss_at cfg i) (positions inp)) = Inr v \<and>
                   mean_vf_loss d = Tensor0 v
          else mean_vf_loss d = Float0 0"
      by simp_all
    note sp = spec [OF e]
    from e r show ?thesis
      by (auto simp add: sp split: if_splits)
  qed
  from kl out agent show ?thesis by blast
qed

theorem means_over_valid_witness:
  "loss_mask rnn_loss_input = Inr (Some [True, False, True, True]) \<and>
   state rnn_loss_input \<noteq> [] \<and>
   map (\<lambda>p. curr_entropy p ! 0) (positions rnn_loss_input) = [1, 7, 1, 1] \<and>
   agent_loss example_config example_policy (Some [True, False, True, True])
     (positions rnn_loss_input) 0 =
     Inr \<lparr>total_loss = - (9 / 10), mean_policy_loss = - 2, mean_vf_loss = Tensor0 1,
          mean_entropy = 1\<rparr> \<and>
   mean_over_valid (seq_lens rnn_loss_input)
     (length (positions rnn_loss_input) div length (seq_lens rnn_loss_input))
     (is_time_major rnn_loss_input)
     (map (\<lambda>p. curr_entropy p ! 0) (positions rnn_loss_input)) = 1 \<and>
   ppo_surrogate_loss example_config example_policy (\<lambda>y pred. 0) rnn_loss_input =
     Inr \<lparr>p_total_loss = - (27 / 10), p_mean_policy_loss = - 2, p_mean_vf_loss = 1,
          p_mean_entropy = 1, p_vf_explained_var = 0, p_mean_kl = 3 / 2\<rparr> \<and>
   mean_spec rnn_loss_input (map (\<lambda>p. sum_list (action_kl p)) (positions rnn_loss_input))
     = 3 / 2"
proof -
  note w = means_over_valid [OF rnn_loss_mask, of example_config example_policy "\<lambda>y pred. 0" 0]
  from w rnn_agent_loss
  have "1 = mean_spec rnn_loss_input (map (\<lambda>p. curr_entropy p ! 0) (positions rnn_loss_input))"
    by simp
  moreover have st: "state rnn_loss_input \<noteq> []"
    by (simp add: rnn_loss_input_def)
  ultimately have "mean_over_valid (seq_lens rnn_loss_input)
     (length (positions rnn_loss_input) div length (seq_lens rnn_loss_input))
     (is_time_major rnn_loss_input)
     (map (\<lambda>p. curr_entropy p ! 0) (positions rnn_loss_input)) = 1"
    by (simp add: mean_spec_def)
  moreover have "map (\<lambda>p. curr_entropy p ! 0) (positions rnn_loss_input) = [1, 7, 1, 1]"
    by (simp add: rnn_loss_input_def example_position_def padding_position_def)
  moreover from w rnn_loss
  have "mean_spec rnn_loss_input (map (\<lambda>p. sum_list (action_kl p)) (positions rnn_loss_input))
     = 3 / 2"
    by simp
  ultimately show ?thesis
    using rnn_loss_mask rnn_agent_loss rnn_loss st by (intro conjI)
qed


text \<open>
  C7: without \<open>use_gae\<close> the entry of each agent is as the claim says (the mean value
  loss is the float 0 and the total loss has no value term), but the aggregation then
  stacks the three floats, which raises: no diagnostic is produced and nothing is
  returned.
\<close>

theorem nogae_loss_raises:
  "\<not> use_gae nogae_config \<and>
   agent_loss nogae_config example_policy None (positions example_loss_input) 0 =
     Inr \<lparr>total_loss = - (19 / 10), mean_policy_loss = - 2, mean_vf_loss = Float0 0,
          mean_entropy = 1\<rparr> \<and>
   torch_stack [Float0 0, Float0 0, Float0 0] = Inl TypeError \<and>
   ppo_surrogate_loss nogae_config example_policy (\<lambda>y pred. 0) example_loss_input
     = Inl TypeError"
  using nogae_agent_loss nogae_loss
  by (simp add: example_loss_input_def nogae_config_def example_config_def torch_stack_def)

end
